theory Spec2Isabelle
  imports Main
begin

section \<open>ReachInbox email scheduler: dispatcher, rate limiter and worker\<close>

text \<open>
  A shallow embedding of the backend of the scheduler: the \<^verbatim>\<open>POST /schedule-email\<close>
  handler (\<^verbatim>\<open>routes/emailRoutes.ts\<close>), the store operations
  (\<^verbatim>\<open>models/EmailModel.ts\<close>), the rate limiter (\<^verbatim>\<open>services/RateLimiter.ts\<close>),
  the transport wrapper (\<^verbatim>\<open>services/EmailService.ts\<close>) and the job processor
  (\<^verbatim>\<open>workers/emailWorker.ts\<close>).

  Instants are milliseconds since the epoch, as \<^verbatim>\<open>Date.getTime()\<close> gives them; they are
  modelled as \<^typ>\<open>int\<close>, which is exact for the integral values a \<^verbatim>\<open>Date\<close> holds.
  A rejected promise is a value \<open>Inl e\<close>; everything an \<^verbatim>\<open>await\<close> can change is a field of
  the record \<open>world\<close>, passed in and returned.
\<close>

subsection \<open>Errors and rows\<close>

datatype js_error = Error (message: string)

datatype status = pending | processing | completed | failed

text \<open>The interfaces \<^verbatim>\<open>ScheduledEmail\<close> and \<^verbatim>\<open>SentEmail\<close> of EmailModel.ts, without the
  columns the database fills in by itself (\<^verbatim>\<open>id\<close>, \<^verbatim>\<open>created_at\<close>, \<^verbatim>\<open>updated_at\<close>).\<close>

record ScheduledEmail =
  job_id :: string
  recipient_email :: string
  subject :: string
  body :: string
  scheduled_time :: int
  status :: status
  sender_email :: "string option"
  error_message :: "string option"

record SentEmail =
  sent_job_id :: string
  sent_recipient_email :: string
  sent_subject :: string
  sent_body :: string
  sent_scheduled_time :: int
  sent_at :: int
  sent_sender_email :: "string option"
  ethereal_message_id :: "string option"

text \<open>The payload of a queue job (the first argument of \<^verbatim>\<open>addEmailJob\<close>).\<close>

record JobData =
  recipientEmail :: string
  job_subject :: string
  job_body :: string
  scheduledTime :: int
  jobId :: string
  senderEmail :: "string option"

subsection \<open>The process environment and the collaborators\<close>

text \<open>
  What the code takes from outside the repository is a field of \<open>env\<close>:
  \<^item> \<open>HOURLY_LIMIT\<close>: the constant of RateLimiter.ts,
    \<^verbatim>\<open>parseInt(process.env.HOURLY_EMAIL_LIMIT || '100')\<close>, for a variable that parses as an
    integer;
  \<^item> \<open>limit_text\<close>: \<^verbatim>\<open>process.env.HOURLY_EMAIL_LIMIT || 100\<close> as the worker interpolates it;
  \<^item> \<open>transporter\<close>: the nodemailer transport of EmailService.ts (\<open>None\<close> before
    \<^verbatim>\<open>initEmailService\<close>); applied to recipient, subject and body it gives the message id
    or the error it rejects with;
  \<^item> \<open>is_email\<close>, \<open>is_datetime\<close>: zod's \<^verbatim>\<open>.email()\<close> and \<^verbatim>\<open>.datetime()\<close> checks;
  \<^item> \<open>date_parse\<close>: \<^verbatim>\<open>new Date(s).getTime()\<close> on a string that passed \<^verbatim>\<open>.datetime()\<close>;
  \<^item> \<open>uuidv4\<close>: the identifiers \<^verbatim>\<open>uuidv4()\<close> returns, in the order of the calls;
  \<^item> \<open>unique_violation\<close>: the error the database driver rejects with when an insert
    breaks the \<^verbatim>\<open>UNIQUE\<close> constraint on \<^verbatim>\<open>job_id\<close>.
\<close>

record env =
  HOURLY_LIMIT :: int
  limit_text :: string
  transporter :: "(string \<Rightarrow> string \<Rightarrow> string \<Rightarrow> js_error + string) option"
  is_email :: "string \<Rightarrow> bool"
  is_datetime :: "string \<Rightarrow> bool"
  date_parse :: "string \<Rightarrow> int"
  uuidv4 :: "nat \<Rightarrow> string"
  unique_violation :: "string \<Rightarrow> js_error"

text \<open>The calls that reach a collaborator, in the order they are made.\<close>

datatype event =
    Store_insert string
  | Queue_add string int
  | Status_write string status
  | Transport_send string
  | Counter_incr string
  | Sent_insert string
  | Requeue string int

text \<open>
  The state outside the process: the two tables of the database (\<open>db_fault\<close> is the error
  every query rejects with while the database is unreachable), the rate counters kept in
  Redis with the time-to-live \<^verbatim>\<open>EXPIRE\<close> gave them (\<open>redis_fault\<close> likewise), the delayed
  queue, the trace of calls, the clock and the number of uuids drawn so far. The clock
  \<open>now\<close> is what \<^verbatim>\<open>new Date()\<close> reads; the code never sets it, it moves only where a
  definition below says that time passes. A counter is kept until \<^verbatim>\<open>EXPIRE\<close> deletes it:
  that Redis drops a key whose time-to-live has run out is not modelled.
\<close>

record world =
  scheduled_emails :: "ScheduledEmail list"
  sent_emails :: "SentEmail list"
  db_fault :: "js_error option"
  counters :: "string \<rightharpoonup> int"
  ttl :: "string \<rightharpoonup> int"
  redis_fault :: "js_error option"
  queue :: "(JobData \<times> int) list"
  log :: "event list"
  now :: int
  uuid_next :: nat

subsection \<open>Dates (the UTC getters of the built-in Date)\<close>

text \<open>\<^verbatim>\<open>String(n)\<close> for an integer, and \<^verbatim>\<open>.padStart(2, '0')\<close>.\<close>

fun string_of_nat :: "nat \<Rightarrow> string" where
  "string_of_nat n =
     (if n < 10 then [char_of (48 + n)]
      else string_of_nat (n div 10) @ [char_of (48 + n mod 10)])"

declare string_of_nat.simps [simp del]

definition string_of_int :: "int \<Rightarrow> string" where
  "string_of_int i = (if i < 0 then CHR ''-'' # string_of_nat (nat (- i)) else string_of_nat (nat i))"

definition padStart2 :: "string \<Rightarrow> string" where
  "padStart2 s = (if length s < 2 then replicate (2 - length s) CHR ''0'' @ s else s)"

text \<open>The day number of an instant, and the proleptic Gregorian date of a day number
  (the arithmetic behind \<^verbatim>\<open>getUTCFullYear\<close>, \<^verbatim>\<open>getUTCMonth\<close> and \<^verbatim>\<open>getUTCDate\<close>).\<close>

definition msPerHour :: int where
  "msPerHour = 3600000"

definition hour_index :: "int \<Rightarrow> int" where
  "hour_index t = t div msPerHour"

definition day_index :: "int \<Rightarrow> int" where
  "day_index t = hour_index t div 24"

definition civil :: "int \<Rightarrow> int \<times> int \<times> int" where
  "civil d =
     (let z = d + 719468;
          era = z div 146097;
          doe = z - era * 146097;
          yoe = (doe - doe div 1460 + doe div 36524 - doe div 146096) div 365;
          doy = doe - (365 * yoe + yoe div 4 - yoe div 100);
          mp = (5 * doy + 2) div 153;
          dd = doy - (153 * mp + 2) div 5 + 1;
          mm = (if mp < 10 then mp + 3 else mp - 9);
          yy = yoe + era * 400 + (if mm \<le> 2 then 1 else 0)
      in (yy, mm, dd))"

definition getUTCFullYear :: "int \<Rightarrow> int" where
  "getUTCFullYear t = fst (civil (day_index t))"

definition getUTCMonth :: "int \<Rightarrow> int" where
  "getUTCMonth t = fst (snd (civil (day_index t))) - 1"

definition getUTCDate :: "int \<Rightarrow> int" where
  "getUTCDate t = snd (snd (civil (day_index t)))"

definition getUTCHours :: "int \<Rightarrow> int" where
  "getUTCHours t = hour_index t mod 24"

subsection \<open>RateLimiter.ts\<close>

definition getCurrentHour :: "int \<Rightarrow> string" where
  "getCurrentHour t =
     (let year = getUTCFullYear t;
          month = padStart2 (string_of_int (getUTCMonth t + 1));
          day = padStart2 (string_of_int (getUTCDate t));
          hour = padStart2 (string_of_int (getUTCHours t))
      in string_of_int year @ ''-'' @ month @ ''-'' @ day @ ''-'' @ hour)"

definition getSecondsUntilNextHour :: "int \<Rightarrow> int" where
  "getSecondsUntilNextHour t = ((hour_index t + 1) * msPerHour - t) div 1000"

definition rate_key :: "string \<Rightarrow> int \<Rightarrow> string" where
  "rate_key sender t = ''rate_limit:'' @ sender @ '':'' @ getCurrentHour t"

text \<open>The three Redis commands the limiter issues. A counter key holds an integer;
  \<^verbatim>\<open>EXPIRE\<close> with a time-to-live that is not positive deletes the key at once.\<close>

definition redis_get :: "string \<Rightarrow> world \<Rightarrow> js_error + int option" where
  "redis_get key w =
     (case redis_fault w of Some e \<Rightarrow> Inl e | None \<Rightarrow> Inr (counters w key))"

definition redis_incr :: "string \<Rightarrow> world \<Rightarrow> js_error + int \<times> world" where
  "redis_incr key w =
     (case redis_fault w of
        Some e \<Rightarrow> Inl e
      | None \<Rightarrow>
          (let count = (case counters w key of None \<Rightarrow> 0 | Some c \<Rightarrow> c) + 1
           in Inr (count, w\<lparr>counters := (counters w)(key \<mapsto> count),
                             log := log w @ [Counter_incr key]\<rparr>)))"

definition redis_expire :: "string \<Rightarrow> int \<Rightarrow> world \<Rightarrow> js_error + world" where
  "redis_expire key seconds w =
     (case redis_fault w of
        Some e \<Rightarrow> Inl e
      | None \<Rightarrow>
          (if counters w key = None then Inr w
           else if seconds \<le> 0
             then Inr (w\<lparr>counters := (counters w)(key := None), ttl := (ttl w)(key := None)\<rparr>)
           else Inr (w\<lparr>ttl := (ttl w)(key \<mapsto> seconds)\<rparr>)))"

definition canSendEmail :: "env \<Rightarrow> string \<Rightarrow> world \<Rightarrow> js_error + bool" where
  "canSendEmail E sender w =
     (let key = rate_key sender (now w)
      in case redis_get key w of
           Inr count \<Rightarrow>
             (let currentCount = (case count of None \<Rightarrow> 0 | Some c \<Rightarrow> c)
              in Inr (currentCount < HOURLY_LIMIT E))
         | Inl error \<Rightarrow> Inr True)"

definition incrementSentCount :: "string \<Rightarrow> world \<Rightarrow> (js_error + unit) \<times> world" where
  "incrementSentCount sender w =
     (let key = rate_key sender (now w)
      in case redis_incr key w of
           Inr (count, w1) \<Rightarrow>
             (if count = 1
              then (case redis_expire key (getSecondsUntilNextHour (now w1)) w1 of
                      Inr w2 \<Rightarrow> (Inr (), w2)
                    | Inl error \<Rightarrow> (Inr (), w1))
              else (Inr (), w1))
         | Inl error \<Rightarrow> (Inr (), w))"


subsection \<open>EmailModel.ts\<close>

text \<open>\<^verbatim>\<open>value || null\<close> on an optional string: the empty string is falsy.\<close>

definition or_null :: "string option \<Rightarrow> string option" where
  "or_null v = (case v of None \<Rightarrow> None | Some s \<Rightarrow> if s = [] then None else Some s)"

text \<open>Both tables declare \<^verbatim>\<open>job_id VARCHAR(255) NOT NULL UNIQUE\<close> (the migration script):
  an insert of a \<^verbatim>\<open>job_id\<close> that is already there is rejected. The length limits of the
  columns are not modelled.\<close>

definition createScheduledEmail :: "env \<Rightarrow> ScheduledEmail \<Rightarrow> world \<Rightarrow> js_error + world" where
  "createScheduledEmail E email w =
     (case db_fault w of
        Some e \<Rightarrow> Inl e
      | None \<Rightarrow>
          (if job_id email \<in> set (map job_id (scheduled_emails w))
           then Inl (unique_violation E (job_id email))
           else Inr (w\<lparr>scheduled_emails :=
                          scheduled_emails w @ [email\<lparr>sender_email := or_null (sender_email email)\<rparr>],
                        log := log w @ [Store_insert (job_id email)]\<rparr>)))"

definition set_status :: "string \<Rightarrow> status \<Rightarrow> string option \<Rightarrow> ScheduledEmail \<Rightarrow> ScheduledEmail" where
  "set_status jid st msg r =
     (if job_id r = jid then r\<lparr>status := st, error_message := or_null msg\<rparr> else r)"

definition updateScheduledEmailStatus ::
  "string \<Rightarrow> status \<Rightarrow> string option \<Rightarrow> world \<Rightarrow> js_error + world" where
  "updateScheduledEmailStatus jid st errorMessage w =
     (case db_fault w of
        Some e \<Rightarrow> Inl e
      | None \<Rightarrow>
          Inr (w\<lparr>scheduled_emails := map (set_status jid st errorMessage) (scheduled_emails w),
                 log := log w @ [Status_write jid st]\<rparr>))"

definition createSentEmail :: "env \<Rightarrow> SentEmail \<Rightarrow> world \<Rightarrow> js_error + world" where
  "createSentEmail E email w =
     (case db_fault w of
        Some e \<Rightarrow> Inl e
      | None \<Rightarrow>
          (if sent_job_id email \<in> set (map sent_job_id (sent_emails w))
           then Inl (unique_violation E (sent_job_id email))
           else Inr (w\<lparr>sent_emails :=
                          sent_emails w @
                            [email\<lparr>sent_sender_email := or_null (sent_sender_email email),
                                   ethereal_message_id := or_null (ethereal_message_id email)\<rparr>],
                        log := log w @ [Sent_insert (sent_job_id email)]\<rparr>)))"

text \<open>\<^verbatim>\<open>SELECT * FROM scheduled_emails WHERE job_id = ? LIMIT 1\<close> on the rows.\<close>

definition unit_of :: "string \<Rightarrow> ScheduledEmail list \<Rightarrow> ScheduledEmail option" where
  "unit_of jid rows = find (\<lambda>r. job_id r = jid) rows"

definition getScheduledEmailByJobId :: "string \<Rightarrow> world \<Rightarrow> js_error + ScheduledEmail option" where
  "getScheduledEmailByJobId jid w =
     (case db_fault w of
        Some e \<Rightarrow> Inl e
      | None \<Rightarrow> Inr (unit_of jid (scheduled_emails w)))"

text \<open>The status and the error detail stored for a unit.\<close>

definition status_of :: "string \<Rightarrow> world \<Rightarrow> status option" where
  "status_of jid w = map_option status (unit_of jid (scheduled_emails w))"

definition error_detail_of :: "string \<Rightarrow> world \<Rightarrow> string option" where
  "error_detail_of jid w =
     (case unit_of jid (scheduled_emails w) of
        None \<Rightarrow> None
      | Some r \<Rightarrow> error_message r)"

subsection \<open>EmailService.ts and the queue\<close>

definition sendEmail :: "env \<Rightarrow> string \<Rightarrow> string \<Rightarrow> string \<Rightarrow> world \<Rightarrow> (js_error + string) \<times> world" where
  "sendEmail E to subj text w =
     (case transporter E of
        None \<Rightarrow> (Inl (Error ''Email service not initialized. Call initEmailService() first.''), w)
      | Some sendMail \<Rightarrow> (sendMail to subj text, w\<lparr>log := log w @ [Transport_send to]\<rparr>))"

text \<open>\<^verbatim>\<open>addEmailJob\<close>: the queue lives in the same Redis. Job ids are fresh uuids; what the
  queue does with an id it already holds is not modelled.\<close>

definition addEmailJob :: "JobData \<Rightarrow> int \<Rightarrow> world \<Rightarrow> js_error + world" where
  "addEmailJob emailData delayMs w =
     (case redis_fault w of
        Some e \<Rightarrow> Inl e
      | None \<Rightarrow>
          Inr (w\<lparr>queue := queue w @ [(emailData, delayMs)],
                 log := log w @ [Queue_add (jobId emailData) delayMs]\<rparr>))"

subsection \<open>emailWorker.ts: the job processor\<close>

definition sender_or_default :: "JobData \<Rightarrow> string" where
  "sender_or_default job =
     (case senderEmail job of None \<Rightarrow> ''default'' | Some s \<Rightarrow> if s = [] then ''default'' else s)"

definition rate_limit_error :: "env \<Rightarrow> js_error" where
  "rate_limit_error E = Error (''Rate limit exceeded for sender. Hourly limit: '' @ limit_text E)"

definition sent_record :: "JobData \<Rightarrow> string \<Rightarrow> int \<Rightarrow> SentEmail" where
  "sent_record job messageId t =
     \<lparr>sent_job_id = jobId job,
      sent_recipient_email = recipientEmail job,
      sent_subject = job_subject job,
      sent_body = job_body job,
      sent_scheduled_time = scheduledTime job,
      sent_at = t,
      sent_sender_email = senderEmail job,
      ethereal_message_id = Some messageId\<rparr>"

text \<open>The body of the \<^verbatim>\<open>try\<close> block: the first rejected \<^verbatim>\<open>await\<close> leaves it, with the
  world as it is by then.\<close>

definition try_block :: "env \<Rightarrow> JobData \<Rightarrow> world \<Rightarrow> (js_error + string) \<times> world" where
  "try_block E job w0 =
     (case updateScheduledEmailStatus (jobId job) processing None w0 of
        Inl e \<Rightarrow> (Inl e, w0)
      | Inr w1 \<Rightarrow>
          (case canSendEmail E (sender_or_default job) w1 of
             Inl e \<Rightarrow> (Inl e, w1)
           | Inr canSend \<Rightarrow>
               (if \<not> canSend then (Inl (rate_limit_error E), w1)
                else
                  (case sendEmail E (recipientEmail job) (job_subject job) (job_body job) w1 of
                     (Inl e, w2) \<Rightarrow> (Inl e, w2)
                   | (Inr messageId, w2) \<Rightarrow>
                       (case incrementSentCount (sender_or_default job) w2 of
                          (Inl e, w3) \<Rightarrow> (Inl e, w3)
                        | (Inr u, w3) \<Rightarrow>
                            (case updateScheduledEmailStatus (jobId job) completed None w3 of
                               Inl e \<Rightarrow> (Inl e, w3)
                             | Inr w4 \<Rightarrow>
                                 (case createSentEmail E (sent_record job messageId (now w4)) w4 of
                                    Inl e \<Rightarrow> (Inl e, w4)
                                  | Inr w5 \<Rightarrow> (Inr messageId, w5))))))))"

text \<open>The \<^verbatim>\<open>catch\<close> block writes \<^verbatim>\<open>failed\<close> with the error's message and throws the error
  again; when that write is rejected, its error is the one thrown.\<close>

definition catch_block :: "JobData \<Rightarrow> js_error \<Rightarrow> world \<Rightarrow> (js_error + string) \<times> world" where
  "catch_block job err w =
     (case updateScheduledEmailStatus (jobId job) failed (Some (message err)) w of
        Inl e \<Rightarrow> (Inl e, w)
      | Inr w1 \<Rightarrow> (Inl err, w1))"

definition processor :: "env \<Rightarrow> JobData \<Rightarrow> world \<Rightarrow> (js_error + string) \<times> world" where
  "processor E job w =
     (case try_block E job w of
        (Inr messageId, w1) \<Rightarrow> (Inr messageId, w1)
      | (Inl err, w1) \<Rightarrow> catch_block job err w1)"

text \<open>
  The same function one \<^verbatim>\<open>await\<close> at a time. The worker runs with
  \<^verbatim>\<open>concurrency: parseInt(process.env.QUEUE_CONCURRENCY || '5') || 5\<close>: several
  invocations of the processor are in flight in one event loop, and each can be
  suspended at each of its awaits while another one runs.
\<close>

datatype pc =
    At_claim
  | At_check
  | At_send
  | At_incr string
  | At_complete string
  | At_record string
  | At_catch js_error
  | Returned string
  | Thrown js_error

fun worker_step :: "env \<Rightarrow> JobData \<Rightarrow> pc \<Rightarrow> world \<Rightarrow> pc \<times> world" where
  "worker_step E job At_claim w =
     (case updateScheduledEmailStatus (jobId job) processing None w of
        Inl e \<Rightarrow> (At_catch e, w)
      | Inr w1 \<Rightarrow> (At_check, w1))"
| "worker_step E job At_check w =
     (case canSendEmail E (sender_or_default job) w of
        Inl e \<Rightarrow> (At_catch e, w)
      | Inr canSend \<Rightarrow> (if \<not> canSend then (At_catch (rate_limit_error E), w) else (At_send, w)))"
| "worker_step E job At_send w =
     (case sendEmail E (recipientEmail job) (job_subject job) (job_body job) w of
        (Inl e, w1) \<Rightarrow> (At_catch e, w1)
      | (Inr messageId, w1) \<Rightarrow> (At_incr messageId, w1))"
| "worker_step E job (At_incr messageId) w =
     (case incrementSentCount (sender_or_default job) w of
        (Inl e, w1) \<Rightarrow> (At_catch e, w1)
      | (Inr u, w1) \<Rightarrow> (At_complete messageId, w1))"
| "worker_step E job (At_complete messageId) w =
     (case updateScheduledEmailStatus (jobId job) completed None w of
        Inl e \<Rightarrow> (At_catch e, w)
      | Inr w1 \<Rightarrow> (At_record messageId, w1))"
| "worker_step E job (At_record messageId) w =
     (case createSentEmail E (sent_record job messageId (now w)) w of
        Inl e \<Rightarrow> (At_catch e, w)
      | Inr w1 \<Rightarrow> (Returned messageId, w1))"
| "worker_step E job (At_catch err) w =
     (case catch_block job err w of
        (Inl e, w1) \<Rightarrow> (Thrown e, w1)
      | (Inr messageId, w1) \<Rightarrow> (Returned messageId, w1))"
| "worker_step E job (Returned messageId) w = (Returned messageId, w)"
| "worker_step E job (Thrown e) w = (Thrown e, w)"

text \<open>Two invocations in flight: the list says whose turn each next await is.\<close>

datatype turn = First | Second

fun interleave ::
  "env \<Rightarrow> JobData \<Rightarrow> JobData \<Rightarrow> turn list \<Rightarrow> pc \<times> pc \<times> world \<Rightarrow> pc \<times> pc \<times> world" where
  "interleave E a b [] s = s"
| "interleave E a b (First # ts) (pa, pb, w) =
     (case worker_step E a pa w of (pa', w') \<Rightarrow> interleave E a b ts (pa', pb, w'))"
| "interleave E a b (Second # ts) (pa, pb, w) =
     (case worker_step E b pb w of (pb', w') \<Rightarrow> interleave E a b ts (pa, pb', w'))"


subsection \<open>The retry policy of the queue\<close>

text \<open>
  Modelled from the spec: the retry loop of the delayed queue. It is the queue library's
  (BullMQ, a dependency of the repository: its code is not among the sources). The
  sources fix its options in \<^verbatim>\<open>queueOptions.defaultJobOptions\<close>:
  \<^verbatim>\<open>attempts: 3\<close> and \<^verbatim>\<open>backoff: { type: 'exponential', delay: 2000 }\<close>. Following
  section 4.4 of the specification, a job whose processor throws is offered again after a
  backoff delay that doubles with each attempt, until the attempts are used up; a job
  whose processor returns is done. \<open>attempt_loop left made\<close> runs a job that has been
  attempted \<open>made\<close> times and may be retried \<open>left\<close> more times after the attempt at hand;
  the clock moves on by the backoff delay before the next attempt.
\<close>

definition attempts :: nat where
  "attempts = 3"

definition backoff_delay :: int where
  "backoff_delay = 2000"

definition backoff :: "nat \<Rightarrow> int" where
  "backoff attemptsMade = 2 ^ (attemptsMade - 1) * backoff_delay"

definition requeue :: "JobData \<Rightarrow> nat \<Rightarrow> world \<Rightarrow> world" where
  "requeue job attemptsMade w =
     w\<lparr>log := log w @ [Requeue (jobId job) (backoff attemptsMade)],
       now := now w + backoff attemptsMade\<rparr>"

fun attempt_loop :: "nat \<Rightarrow> nat \<Rightarrow> env \<Rightarrow> JobData \<Rightarrow> world \<Rightarrow> (js_error + string) \<times> world" where
  "attempt_loop 0 made E job w = processor E job w"
| "attempt_loop (Suc left) made E job w =
     (case processor E job w of
        (Inr messageId, w1) \<Rightarrow> (Inr messageId, w1)
      | (Inl err, w1) \<Rightarrow> attempt_loop left (Suc made) E job (requeue job (Suc made) w1))"

definition run_job :: "env \<Rightarrow> JobData \<Rightarrow> world \<Rightarrow> (js_error + string) \<times> world" where
  "run_job E job w = attempt_loop (attempts - 1) 0 E job w"

subsection \<open>emailRoutes.ts: POST /schedule-email\<close>

text \<open>The JSON body of the request, with the types the schema asks for, and the data the
  schema returns. A body of another shape is rejected by the schema as well.\<close>

record request_body =
  req_subject :: string
  req_body :: string
  recipients :: "string list"
  startTime :: string
  delayBetweenEmails :: "int option"
  hourlyLimit :: "int option"

record validated =
  v_subject :: string
  v_body :: string
  v_recipients :: "string list"
  v_startTime :: string
  v_delayBetweenEmails :: int
  v_hourlyLimit :: "int option"

definition scheduleEmailSchema :: "env \<Rightarrow> request_body \<Rightarrow> validated option" where
  "scheduleEmailSchema E rb =
     (if 1 \<le> length (req_subject rb) \<and> 1 \<le> length (req_body rb) \<and>
         list_all (is_email E) (recipients rb) \<and> 1 \<le> length (recipients rb) \<and>
         is_datetime E (startTime rb) \<and>
         (case delayBetweenEmails rb of None \<Rightarrow> True | Some d \<Rightarrow> 0 \<le> d) \<and>
         (case hourlyLimit rb of None \<Rightarrow> True | Some h \<Rightarrow> 1 \<le> h)
      then Some \<lparr>v_subject = req_subject rb,
                 v_body = req_body rb,
                 v_recipients = recipients rb,
                 v_startTime = startTime rb,
                 v_delayBetweenEmails = (case delayBetweenEmails rb of None \<Rightarrow> 5000 | Some d \<Rightarrow> d),
                 v_hourlyLimit = hourlyLimit rb\<rparr>
      else None)"

datatype response =
    Created string nat
  | Bad_request string
  | Server_error string

definition new_unit :: "string \<Rightarrow> string \<Rightarrow> string \<Rightarrow> string \<Rightarrow> int \<Rightarrow> ScheduledEmail" where
  "new_unit jid recipient subj text scheduledAt =
     \<lparr>job_id = jid, recipient_email = recipient, subject = subj, body = text,
      scheduled_time = scheduledAt, status = pending, sender_email = None,
      error_message = None\<rparr>"

definition new_job :: "string \<Rightarrow> string \<Rightarrow> string \<Rightarrow> string \<Rightarrow> int \<Rightarrow> JobData" where
  "new_job jid recipient subj text scheduledAt =
     \<lparr>recipientEmail = recipient, job_subject = subj, job_body = text,
      scheduledTime = scheduledAt, jobId = jid, senderEmail = None\<rparr>"

text \<open>The \<^verbatim>\<open>for (const recipient of recipients)\<close> loop, with \<^verbatim>\<open>delayOffset\<close> and
  \<^verbatim>\<open>jobIds\<close> as accumulators. A rejected await leaves the loop.\<close>

fun schedule_loop ::
  "env \<Rightarrow> validated \<Rightarrow> int \<Rightarrow> int \<Rightarrow> string list \<Rightarrow> int \<Rightarrow> string list \<Rightarrow> world
     \<Rightarrow> (js_error + string list) \<times> world" where
  "schedule_loop E v startMs initialDelay [] delayOffset jobIds w = (Inr jobIds, w)"
| "schedule_loop E v startMs initialDelay (recipient # rest) delayOffset jobIds w =
     (let jid = ''email-'' @ uuidv4 E (uuid_next w);
          w0 = w\<lparr>uuid_next := Suc (uuid_next w)\<rparr>;
          scheduledAt = startMs + delayOffset
      in case createScheduledEmail E
                (new_unit jid recipient (v_subject v) (v_body v) scheduledAt) w0 of
           Inl e \<Rightarrow> (Inl e, w0)
         | Inr w1 \<Rightarrow>
             (let totalDelay = initialDelay + delayOffset
              in case addEmailJob
                        (new_job jid recipient (v_subject v) (v_body v) scheduledAt)
                        totalDelay w1 of
                   Inl e \<Rightarrow> (Inl e, w1)
                 | Inr w2 \<Rightarrow>
                     schedule_loop E v startMs initialDelay rest
                       (delayOffset + v_delayBetweenEmails v) (jobIds @ [jid]) w2))"

definition post_schedule_email :: "env \<Rightarrow> request_body \<Rightarrow> world \<Rightarrow> response \<times> world" where
  "post_schedule_email E rb w =
     (case scheduleEmailSchema E rb of
        None \<Rightarrow> (Bad_request ''Validation error'', w)
      | Some v \<Rightarrow>
          (let startMs = date_parse E (v_startTime v)
           in if startMs \<le> now w
              then (Bad_request ''Start time must be in the future'', w)
              else
                (let initialDelay = startMs - now w
                 in case schedule_loop E v startMs initialDelay (v_recipients v) 0 [] w of
                      (Inl e, w1) \<Rightarrow> (Server_error (message e), w1)
                    | (Inr jobIds, w1) \<Rightarrow>
                        (Created (''batch-'' @ uuidv4 E (uuid_next w1)) (length (v_recipients v)),
                         w1\<lparr>uuid_next := Suc (uuid_next w1)\<rparr>))))"

subsection \<open>Reading a trace\<close>

text \<open>The statuses written for a unit in a trace of calls, in order.\<close>

fun status_writes :: "string \<Rightarrow> event list \<Rightarrow> status list" where
  "status_writes jid [] = []"
| "status_writes jid (Status_write j st # es) =
     (if j = jid then st # status_writes jid es else status_writes jid es)"
| "status_writes jid (e # es) = status_writes jid es"

subsection \<open>A concrete deployment, for the examples\<close>

definition accept_all :: "string \<Rightarrow> string \<Rightarrow> string \<Rightarrow> js_error + string" where
  "accept_all to subj text = Inr (''<'' @ to @ ''>'')"

definition reject_all :: "string \<Rightarrow> string \<Rightarrow> string \<Rightarrow> js_error + string" where
  "reject_all to subj text = Inl (Error ''Connection timeout'')"

definition demo_env :: env where
  "demo_env =
     \<lparr>HOURLY_LIMIT = 2,
      limit_text = ''2'',
      transporter = Some accept_all,
      is_email = (\<lambda>s. CHR ''@'' \<in> set s),
      is_datetime = (\<lambda>s. s = ''2023-11-14T23:00:00Z''),
      date_parse = (\<lambda>s. 1700002800000),
      uuidv4 = (\<lambda>n. replicate (Suc n) CHR ''a''),
      unique_violation = (\<lambda>jid. Error (''Duplicate entry '' @ jid))\<rparr>"

definition failing_env :: env where
  "failing_env = demo_env\<lparr>transporter := Some reject_all\<rparr>"

text \<open>2023-11-14T22:13:20Z.\<close>

definition demo_time :: int where
  "demo_time = 1700000000000"

definition demo_job :: "string \<Rightarrow> JobData" where
  "demo_job jid = new_job jid ''a@x.io'' ''Hi'' ''Hello'' demo_time"

definition demo_unit :: "string \<Rightarrow> ScheduledEmail" where
  "demo_unit jid = new_unit jid ''a@x.io'' ''Hi'' ''Hello'' demo_time"

definition empty_world :: world where
  "empty_world =
     \<lparr>scheduled_emails = [], sent_emails = [], db_fault = None,
      counters = Map.empty, ttl = Map.empty, redis_fault = None,
      queue = [], log = [], now = demo_time, uuid_next = 0\<rparr>"

definition demo_world :: world where
  "demo_world = empty_world\<lparr>scheduled_emails := [demo_unit ''email-0'', demo_unit ''email-1'', demo_unit ''email-2'']\<rparr>"

definition demo_key :: string where
  "demo_key = rate_key ''default'' demo_time"

definition demo_request :: request_body where
  "demo_request =
     \<lparr>req_subject = ''Hi'', req_body = ''Hello'', recipients = [''a@x.io'', ''b@x.io''],
      startTime = ''2023-11-14T23:00:00Z'', delayBetweenEmails = Some 10000,
      hourlyLimit = Some 1\<rparr>"




text \<open>The hour's counter already at the limit of 2.\<close>

definition saturated_world :: world where
  "saturated_world = demo_world\<lparr>counters := [demo_key \<mapsto> 2]\<rparr>"

text \<open>One unit delivered at 22:13:20; then, at 22:40:00 of the same hour, two deliveries
  in flight at once, each taking its next await in turn.\<close>

definition race_start :: world where
  "race_start = snd (processor demo_env (demo_job ''email-0'') demo_world)"

definition race_time :: int where
  "race_time = 1700001600000"

definition race_schedule :: "turn list" where
  "race_schedule = [First, Second, First, Second, First, Second,
                    First, Second, First, Second, First, Second]"

definition race_end :: "pc \<times> pc \<times> world" where
  "race_end = interleave demo_env (demo_job ''email-1'') (demo_job ''email-2'') race_schedule
                (At_claim, At_claim, race_start\<lparr>now := race_time\<rparr>)"

text \<open>Deliveries at given instants; 2023-11-14T22:59:59.500Z, in the last second of the
  hour of \<open>demo_time\<close>; and the jobs of \<open>demo_request\<close> delivered when they are due.\<close>

definition last_second :: int where
  "last_second = 1700002799500"

definition deliver_at :: "env \<Rightarrow> int \<Rightarrow> JobData \<Rightarrow> world \<Rightarrow> world" where
  "deliver_at E t job w = snd (processor E job (w\<lparr>now := t\<rparr>))"

definition last_second_run :: world where
  "last_second_run =
     deliver_at demo_env (last_second + 200) (demo_job ''email-2'')
       (deliver_at demo_env (last_second + 100) (demo_job ''email-1'')
         (deliver_at demo_env last_second (demo_job ''email-0'') demo_world))"

definition scheduled_world :: world where
  "scheduled_world = snd (post_schedule_email demo_env demo_request empty_world)"

definition deliver_due :: "env \<Rightarrow> int \<Rightarrow> JobData \<times> int \<Rightarrow> world \<Rightarrow> world" where
  "deliver_due E t0 entry w = deliver_at E (t0 + snd entry) (fst entry) w"

definition override_run :: world where
  "override_run = fold (deliver_due demo_env demo_time) (queue scheduled_world) scheduled_world"

section \<open>Properties\<close>

subsection \<open>Auxiliary facts\<close>

lemma hour_index_rate_key:
  "hour_index t = hour_index t' \<Longrightarrow> rate_key sender t = rate_key sender t'"
  by (simp add: rate_key_def getCurrentHour_def getUTCFullYear_def getUTCMonth_def
      getUTCDate_def getUTCHours_def day_index_def)

lemma job_id_set_status [simp]: "job_id (set_status jid st msg r) = job_id r"
  by (simp add: set_status_def)

lemma status_set_status [simp]:
  "status (set_status jid st msg r) = (if job_id r = jid then st else status r)"
  by (simp add: set_status_def)

lemma error_message_set_status [simp]:
  "error_message (set_status jid st msg r) =
     (if job_id r = jid then or_null msg else error_message r)"
  by (simp add: set_status_def)

lemma set_status_twice [simp]:
  "set_status jid st2 msg2 (set_status jid st1 msg1 r) = set_status jid st2 msg2 r"
  by (simp add: set_status_def)

lemma unit_of_set_status [simp]:
  "unit_of jid (map (set_status jid' st msg) rows) =
     map_option (set_status jid' st msg) (unit_of jid rows)"
  by (induction rows) (simp_all add: unit_of_def)

lemma unit_of_present:
  "jid \<in> job_id ` set rows \<Longrightarrow> \<exists>r. unit_of jid rows = Some r \<and> job_id r = jid"
  by (induction rows) (auto simp: unit_of_def)

lemma unit_of_append [simp]:
  "unit_of jid (rows @ rows') =
     (case unit_of jid rows of None \<Rightarrow> unit_of jid rows' | Some r \<Rightarrow> Some r)"
  by (induction rows) (simp_all add: unit_of_def)

lemma status_of_after_write:
  assumes "jid \<in> job_id ` set rows"
  shows "map_option status (unit_of jid (map (set_status jid st msg) rows)) = Some st"
proof -
  from unit_of_present [OF assms] obtain r where "unit_of jid rows = Some r" "job_id r = jid"
    by blast
  then show ?thesis by simp
qed

lemma error_detail_after_write:
  assumes "jid \<in> job_id ` set rows"
  shows "(case unit_of jid (map (set_status jid st msg) rows) of
           None \<Rightarrow> None | Some r \<Rightarrow> error_message r) = or_null msg"
proof -
  from unit_of_present [OF assms] obtain r where "unit_of jid rows = Some r" "job_id r = jid"
    by blast
  then show ?thesis by simp
qed

lemma incrementSentCount_returns: "fst (incrementSentCount sender w) = Inr ()"
  by (simp add: incrementSentCount_def Let_def split: sum.split prod.split)

lemma incrementSentCount_unreachable:
  "redis_fault w = Some e \<Longrightarrow> incrementSentCount sender w = (Inr (), w)"
  by (simp add: incrementSentCount_def redis_incr_def Let_def)

lemma canSendEmail_unreachable:
  "redis_fault w = Some e \<Longrightarrow> canSendEmail E sender w = Inr True"
  by (simp add: canSendEmail_def redis_get_def Let_def)

lemma demo_world_fields [simp]:
  "scheduled_emails demo_world = [demo_unit ''email-0'', demo_unit ''email-1'', demo_unit ''email-2'']"
  "sent_emails demo_world = []"
  "db_fault demo_world = None"
  "counters demo_world = Map.empty"
  "ttl demo_world = Map.empty"
  "redis_fault demo_world = None"
  "queue demo_world = []"
  "log demo_world = []"
  "now demo_world = demo_time"
  "uuid_next demo_world = 0"
  by (simp_all add: demo_world_def empty_world_def)

lemma empty_world_fields [simp]:
  "scheduled_emails empty_world = []"
  "sent_emails empty_world = []"
  "db_fault empty_world = None"
  "counters empty_world = Map.empty"
  "ttl empty_world = Map.empty"
  "redis_fault empty_world = None"
  "queue empty_world = []"
  "log empty_world = []"
  "now empty_world = demo_time"
  "uuid_next empty_world = 0"
  by (simp_all add: empty_world_def)

lemma demo_env_fields [simp]:
  "HOURLY_LIMIT demo_env = 2"
  "limit_text demo_env = ''2''"
  "transporter demo_env = Some accept_all"
  "is_email demo_env s = (CHR ''@'' \<in> set s)"
  "is_datetime demo_env s = (s = ''2023-11-14T23:00:00Z'')"
  "date_parse demo_env s = 1700002800000"
  "uuidv4 demo_env n = replicate (Suc n) CHR ''a''"
  "unique_violation demo_env jid = Error (''Duplicate entry '' @ jid)"
  by (simp_all add: demo_env_def)

lemma failing_env_fields [simp]:
  "HOURLY_LIMIT failing_env = 2"
  "limit_text failing_env = ''2''"
  "transporter failing_env = Some reject_all"
  "unique_violation failing_env jid = Error (''Duplicate entry '' @ jid)"
  by (simp_all add: failing_env_def)

lemma demo_job_fields [simp]:
  "jobId (demo_job jid) = jid"
  "recipientEmail (demo_job jid) = ''a@x.io''"
  "job_subject (demo_job jid) = ''Hi''"
  "job_body (demo_job jid) = ''Hello''"
  "scheduledTime (demo_job jid) = demo_time"
  "senderEmail (demo_job jid) = None"
  "sender_or_default (demo_job jid) = ''default''"
  by (simp_all add: demo_job_def new_job_def sender_or_default_def)

lemma demo_unit_fields [simp]:
  "job_id (demo_unit jid) = jid"
  "status (demo_unit jid) = pending"
  "error_message (demo_unit jid) = None"
  by (simp_all add: demo_unit_def new_unit_def)

lemma or_null_simps [simp]:
  "or_null None = None"
  "or_null (Some []) = None"
  "s \<noteq> [] \<Longrightarrow> or_null (Some s) = Some s"
  by (simp_all add: or_null_def)

lemma new_unit_fields [simp]:
  "job_id (new_unit jid r subj text t) = jid"
  "recipient_email (new_unit jid r subj text t) = r"
  "scheduled_time (new_unit jid r subj text t) = t"
  "status (new_unit jid r subj text t) = pending"
  "sender_email (new_unit jid r subj text t) = None"
  "(new_unit jid r subj text t)\<lparr>sender_email := None\<rparr> = new_unit jid r subj text t"
  by (simp_all add: new_unit_def)

lemma new_job_fields [simp]:
  "jobId (new_job jid r subj text t) = jid"
  by (simp add: new_job_def)





lemma demo_request_fields [simp]:
  "req_subject demo_request = ''Hi''"
  "req_body demo_request = ''Hello''"
  "recipients demo_request = [''a@x.io'', ''b@x.io'']"
  "startTime demo_request = ''2023-11-14T23:00:00Z''"
  "delayBetweenEmails demo_request = Some 10000"
  "hourlyLimit demo_request = Some 1"
  by (simp_all add: demo_request_def)





lemma status_writes_append [simp]:
  "status_writes jid (es @ es') = status_writes jid es @ status_writes jid es'"
  by (induction jid es rule: status_writes.induct) simp_all




lemmas worker_defs = processor_def try_block_def catch_block_def updateScheduledEmailStatus_def
  canSendEmail_def redis_get_def sendEmail_def incrementSentCount_def redis_incr_def
  redis_expire_def createSentEmail_def Let_def accept_all_def reject_all_def set_status_def
  sent_record_def getSecondsUntilNextHour_def hour_index_def msPerHour_def rate_limit_error_def




lemma canSendEmail_ignores [simp]:
  "canSendEmail E s (w\<lparr>scheduled_emails := rows\<rparr>) = canSendEmail E s w"
  "canSendEmail E s (w\<lparr>sent_emails := sent\<rparr>) = canSendEmail E s w"
  "canSendEmail E s (w\<lparr>log := l\<rparr>) = canSendEmail E s w"
  "canSendEmail E s (w\<lparr>queue := q\<rparr>) = canSendEmail E s w"
  by (simp_all add: canSendEmail_def redis_get_def Let_def split: option.split)









lemma denied_attempt:
  assumes up: "db_fault w = None"
    and denied: "canSendEmail E (sender_or_default job) w = Inr False"
  shows "processor E job w =
     (Inl (rate_limit_error E),
      w\<lparr>scheduled_emails :=
          map (set_status (jobId job) failed (Some (message (rate_limit_error E)))) (scheduled_emails w),
        log := log w @ [Status_write (jobId job) processing,
                        Status_write (jobId job) failed]\<rparr>)"
  using assms
  by (simp add: processor_def try_block_def catch_block_def updateScheduledEmailStatus_def comp_def)

lemma backoff_values [simp]: "backoff (Suc 0) = 2000" "backoff (Suc (Suc 0)) = 4000"
  "backoff (Suc made) = 2000 * 2 ^ made"
  by (simp_all add: backoff_def backoff_delay_def)

lemma demo_keys [simp]:
  "rate_key s 1700000002000 = rate_key s 1700000000000"
  "rate_key s 1700000006000 = rate_key s 1700000000000"
  "rate_key s 1700001600000 = rate_key s 1700000000000"
  by (rule hour_index_rate_key, simp add: hour_index_def msPerHour_def)+

lemma saturated_world_fields [simp]:
  "scheduled_emails saturated_world = [demo_unit ''email-0'', demo_unit ''email-1'', demo_unit ''email-2'']"
  "db_fault saturated_world = None"
  "redis_fault saturated_world = None"
  "counters saturated_world = [demo_key \<mapsto> 2]"
  "log saturated_world = []"
  "now saturated_world = demo_time"
  by (simp_all add: saturated_world_def)

lemma race_start_eq:
  "race_start =
   demo_world\<lparr>scheduled_emails := [(demo_unit ''email-0'')\<lparr>status := completed, error_message := None\<rparr>,
        demo_unit ''email-1'', demo_unit ''email-2''],
      sent_emails := [sent_record (demo_job ''email-0'') ''<a@x.io>'' demo_time],
      counters := [demo_key \<mapsto> 1],
      ttl := [demo_key \<mapsto> 2800],
      log := [Status_write ''email-0'' processing, Transport_send ''a@x.io'',
              Counter_incr demo_key, Status_write ''email-0'' completed, Sent_insert ''email-0'']\<rparr>"
  by (simp add: race_start_def worker_defs demo_key_def demo_time_def)

lemma schedule_loop_ignores_override:
  "schedule_loop E (v\<lparr>v_hourlyLimit := h\<rparr>) s d rs off ids w = schedule_loop E v s d rs off ids w"
  by (induction rs arbitrary: off ids w) (simp_all add: Let_def split: sum.split)

lemma post_schedule_email_ignores_override:
  assumes "scheduleEmailSchema E rb = Some v"
    and "case h of None \<Rightarrow> True | Some x \<Rightarrow> 1 \<le> x"
  shows "post_schedule_email E (rb\<lparr>hourlyLimit := h\<rparr>) w = post_schedule_email E rb w"
proof -
  have v: "v = \<lparr>v_subject = req_subject rb, v_body = req_body rb, v_recipients = recipients rb,
      v_startTime = startTime rb,
      v_delayBetweenEmails = (case delayBetweenEmails rb of None \<Rightarrow> 5000 | Some d \<Rightarrow> d),
      v_hourlyLimit = hourlyLimit rb\<rparr>"
    using assms(1) by (simp add: scheduleEmailSchema_def split: if_splits)
  have "scheduleEmailSchema E (rb\<lparr>hourlyLimit := h\<rparr>) = Some (v\<lparr>v_hourlyLimit := h\<rparr>)"
    using assms by (simp add: scheduleEmailSchema_def v split: if_splits)
  then show ?thesis
    by (simp add: post_schedule_email_def assms(1) Let_def schedule_loop_ignores_override
        split: prod.split sum.split)
qed

lemma override_keys [simp]:
  "rate_key s 1700002810000 = rate_key s 1700002800000"
  by (rule hour_index_rate_key, simp add: hour_index_def msPerHour_def)

lemma scheduled_world_eq:
  "post_schedule_email demo_env demo_request empty_world =
   (Created ''batch-aaa'' 2,
    empty_world\<lparr>scheduled_emails :=
        [new_unit ''email-a'' ''a@x.io'' ''Hi'' ''Hello'' 1700002800000,
         new_unit ''email-aa'' ''b@x.io'' ''Hi'' ''Hello'' 1700002810000],
      queue := [(new_job ''email-a'' ''a@x.io'' ''Hi'' ''Hello'' 1700002800000, 2800000),
                (new_job ''email-aa'' ''b@x.io'' ''Hi'' ''Hello'' 1700002810000, 2810000)],
      log := [Store_insert ''email-a'', Queue_add ''email-a'' 2800000,
              Store_insert ''email-aa'', Queue_add ''email-aa'' 2810000],
      uuid_next := 3\<rparr>)"
  by (simp add: post_schedule_email_def scheduleEmailSchema_def Let_def createScheduledEmail_def
      addEmailJob_def demo_time_def numeral_3_eq_3)

subsection \<open>The rate check\<close>



subsection \<open>Dispatching a valid request\<close>



subsection \<open>Rejected requests\<close>

text \<open>
  C5. A request whose start instant is not after the clock read by the handler, or whose
  list of recipients is empty, is answered with 400 at once, and the world is left as it
  was: no row is written, no job is enqueued, no call reaches a collaborator.
\<close>

theorem not_future_or_no_recipients_rejected:
  assumes "date_parse E (startTime rb) \<le> now w \<or> recipients rb = []"
  shows "\<exists>msg. post_schedule_email E rb w = (Bad_request msg, w)"
  using assms
  by (auto simp: post_schedule_email_def scheduleEmailSchema_def Let_def split: option.split)

theorem not_future_or_no_recipients_rejected_witness:
  "date_parse demo_env (startTime demo_request) \<le> now (empty_world\<lparr>now := 1700002800000\<rparr>) \<and>
   post_schedule_email demo_env demo_request (empty_world\<lparr>now := 1700002800000\<rparr>)
     = (Bad_request ''Start time must be in the future'', empty_world\<lparr>now := 1700002800000\<rparr>) \<and>
   recipients (demo_request\<lparr>recipients := []\<rparr>) = [] \<and>
   post_schedule_email demo_env (demo_request\<lparr>recipients := []\<rparr>) empty_world
     = (Bad_request ''Validation error'', empty_world)"
proof -
  let ?w = "empty_world\<lparr>now := 1700002800000\<rparr>"
  have h1: "date_parse demo_env (startTime demo_request) \<le> now ?w"
    by (simp add: demo_env_def)
  have h2: "recipients (demo_request\<lparr>recipients := []\<rparr>) = []"
    by simp
  from not_future_or_no_recipients_rejected [of demo_env demo_request ?w] h1
  obtain m1 where r1: "post_schedule_email demo_env demo_request ?w = (Bad_request m1, ?w)"
    by blast
  from not_future_or_no_recipients_rejected
    [of demo_env "demo_request\<lparr>recipients := []\<rparr>" empty_world] h2
  obtain m2 where r2: "post_schedule_email demo_env (demo_request\<lparr>recipients := []\<rparr>)
      empty_world = (Bad_request m2, empty_world)"
    by blast
  have m1: "m1 = ''Start time must be in the future''"
    using r1 by (simp add: post_schedule_email_def scheduleEmailSchema_def demo_env_def
        demo_request_def Let_def)
  have m2: "m2 = ''Validation error''"
    using r2 by (simp add: post_schedule_email_def scheduleEmailSchema_def demo_env_def
        demo_request_def Let_def)
  show ?thesis
    using h1 h2 r1 r2 m1 m2 by simp
qed

subsection \<open>Recording an admission\<close>

text \<open>
  C10. \<open>incrementSentCount\<close> never rejects. When Redis rejects the write, the increment and
  the expiry are skipped and the counters stay as they were; a delivery made while Redis
  is unreachable (the rate check then lets it pass) still sends the email, reaches
  \<open>completed\<close> and writes its sent-record, and no admission is recorded for it.
\<close>

theorem incrementSentCount_never_raises:
  "fst (incrementSentCount sender w) = Inr () \<and>
   (redis_fault w = Some e \<longrightarrow> snd (incrementSentCount sender w) = w) \<and>
   (redis_fault w = Some e \<and> db_fault w = None \<and> transporter E = Some sendMail \<and>
    sendMail (recipientEmail job) (job_subject job) (job_body job) = Inr messageId \<and>
    jobId job \<in> set (map job_id (scheduled_emails w)) \<and>
    jobId job \<notin> set (map sent_job_id (sent_emails w)) \<longrightarrow>
      (\<exists>w'. processor E job w = (Inr messageId, w') \<and>
            status_of (jobId job) w' = Some completed \<and>
            counters w' = counters w \<and> ttl w' = ttl w \<and>
            log w' = log w @ [Status_write (jobId job) processing,
                              Transport_send (recipientEmail job),
                              Status_write (jobId job) completed,
                              Sent_insert (jobId job)]))"
proof (intro conjI impI)
  show "fst (incrementSentCount sender w) = Inr ()"
    by (rule incrementSentCount_returns)
next
  assume "redis_fault w = Some e"
  then show "snd (incrementSentCount sender w) = w"
    by (simp add: incrementSentCount_unreachable)
next
  assume a: "redis_fault w = Some e \<and> db_fault w = None \<and> transporter E = Some sendMail \<and>
    sendMail (recipientEmail job) (job_subject job) (job_body job) = Inr messageId \<and>
    jobId job \<in> set (map job_id (scheduled_emails w)) \<and>
    jobId job \<notin> set (map sent_job_id (sent_emails w))"
  let ?j = "jobId job"
  let ?w1 = "w\<lparr>scheduled_emails := map (set_status ?j processing None) (scheduled_emails w),
               log := log w @ [Status_write ?j processing]\<rparr>"
  let ?w2 = "?w1\<lparr>log := log ?w1 @ [Transport_send (recipientEmail job)]\<rparr>"
  let ?w4 = "?w2\<lparr>scheduled_emails := map (set_status ?j completed None) (scheduled_emails ?w2),
               log := log ?w2 @ [Status_write ?j completed]\<rparr>"
  have s1: "updateScheduledEmailStatus ?j processing None w = Inr ?w1"
    using a by (simp add: updateScheduledEmailStatus_def)
  have s2: "canSendEmail E (sender_or_default job) ?w1 = Inr True"
    using a by (simp add: canSendEmail_unreachable)
  have s3: "sendEmail E (recipientEmail job) (job_subject job) (job_body job) ?w1 = (Inr messageId, ?w2)"
    using a by (simp add: sendEmail_def)
  have s4: "incrementSentCount (sender_or_default job) ?w2 = (Inr (), ?w2)"
    using a by (simp add: incrementSentCount_unreachable)
  have s5: "updateScheduledEmailStatus ?j completed None ?w2 = Inr ?w4"
    using a by (simp add: updateScheduledEmailStatus_def)
  obtain w5 where s6: "createSentEmail E (sent_record job messageId (now ?w4)) ?w4 = Inr w5"
    and w5: "scheduled_emails w5 = scheduled_emails ?w4" "counters w5 = counters ?w4"
      "ttl w5 = ttl ?w4" "log w5 = log ?w4 @ [Sent_insert ?j]"
    using a by (simp add: createSentEmail_def sent_record_def)
  have run: "processor E job w = (Inr messageId, w5)"
    by (simp only: processor_def try_block_def s1 s2 s3 s4 s5 s6 sum.case prod.case simp_thms if_False)
  have rows5: "scheduled_emails w5 = map (set_status ?j completed None) (scheduled_emails w)"
    using w5 by (simp add: comp_def)
  have st: "status_of ?j w5 = Some completed"
    unfolding status_of_def rows5 using a by (intro status_of_after_write) simp
  show "\<exists>w'. processor E job w = (Inr messageId, w') \<and>
            status_of (jobId job) w' = Some completed \<and>
            counters w' = counters w \<and> ttl w' = ttl w \<and>
            log w' = log w @ [Status_write (jobId job) processing,
                              Transport_send (recipientEmail job),
                              Status_write (jobId job) completed,
                              Sent_insert (jobId job)]"
    using run st w5 by simp
qed

theorem incrementSentCount_never_raises_witness:
  "redis_fault (demo_world\<lparr>redis_fault := Some (Error ''ECONNRESET'')\<rparr>) = Some (Error ''ECONNRESET'') \<and>
   incrementSentCount ''default'' (demo_world\<lparr>redis_fault := Some (Error ''ECONNRESET'')\<rparr>)
     = (Inr (), demo_world\<lparr>redis_fault := Some (Error ''ECONNRESET'')\<rparr>) \<and>
   fst (processor demo_env (demo_job ''email-1'')
          (demo_world\<lparr>redis_fault := Some (Error ''ECONNRESET'')\<rparr>)) = Inr ''<a@x.io>'' \<and>
   status_of ''email-1''
     (snd (processor demo_env (demo_job ''email-1'')
          (demo_world\<lparr>redis_fault := Some (Error ''ECONNRESET'')\<rparr>))) = Some completed \<and>
   counters (snd (processor demo_env (demo_job ''email-1'')
          (demo_world\<lparr>redis_fault := Some (Error ''ECONNRESET'')\<rparr>))) = Map.empty"
proof -
  let ?w = "demo_world\<lparr>redis_fault := Some (Error ''ECONNRESET'')\<rparr>"
  note inst = incrementSentCount_never_raises
    [where sender = "''default''" and w = ?w and e = "Error ''ECONNRESET''" and E = demo_env
       and sendMail = accept_all and job = "demo_job ''email-1''" and messageId = "''<a@x.io>''"]
  have hyps: "redis_fault ?w = Some (Error ''ECONNRESET'') \<and> db_fault ?w = None \<and>
      transporter demo_env = Some accept_all \<and>
      accept_all (recipientEmail (demo_job ''email-1'')) (job_subject (demo_job ''email-1''))
        (job_body (demo_job ''email-1'')) = Inr ''<a@x.io>'' \<and>
      jobId (demo_job ''email-1'') \<in> set (map job_id (scheduled_emails ?w)) \<and>
      jobId (demo_job ''email-1'') \<notin> set (map sent_job_id (sent_emails ?w))"
    by (simp add: accept_all_def)
  from inst hyps obtain w' where
    run: "processor demo_env (demo_job ''email-1'') ?w = (Inr ''<a@x.io>'', w')"
    and st: "status_of (jobId (demo_job ''email-1'')) w' = Some completed"
    and cnt: "counters w' = counters ?w"
    by blast
  have incr: "incrementSentCount ''default'' ?w = (Inr (), ?w)"
    using inst hyps by (simp add: prod_eq_iff)
  show ?thesis
    using run st cnt incr by simp
qed

subsection \<open>The status of a unit across deliveries\<close>




subsection \<open>A unit delivered twice\<close>




subsection \<open>Retries\<close>



text \<open>
  C6, as the specification states it, fails: a denial is an ordinary failure of the job and
  uses up the same three attempts. When the limit stays reached (here the three attempts
  fall within six seconds of the same hour), the third denial is not re-queued: the job
  has failed for good and the unit stays \<open>failed\<close>.
\<close>

theorem third_denial_is_final:
  "canSendEmail demo_env ''default'' saturated_world = Inr False \<and>
   fst (run_job demo_env (demo_job ''email-1'') saturated_world)
     = Inl (Error ''Rate limit exceeded for sender. Hourly limit: 2'') \<and>
   log (snd (run_job demo_env (demo_job ''email-1'') saturated_world))
     = [Status_write ''email-1'' processing, Status_write ''email-1'' failed,
        Requeue ''email-1'' 2000,
        Status_write ''email-1'' processing, Status_write ''email-1'' failed,
        Requeue ''email-1'' 4000,
        Status_write ''email-1'' processing, Status_write ''email-1'' failed] \<and>
   now (snd (run_job demo_env (demo_job ''email-1'') saturated_world)) = demo_time + 6000 \<and>
   status_of ''email-1'' (snd (run_job demo_env (demo_job ''email-1'') saturated_world)) = Some failed"
  by (simp add: run_job_def attempts_def numeral_3_eq_3 worker_defs requeue_def demo_key_def
      demo_time_def status_of_def unit_of_def)

text \<open>
  C6, amended. When the rate check denies a unit, the worker does not contact the
  transport; it writes the status \<open>failed\<close> with the error detail
  \<^verbatim>\<open>Rate limit exceeded for sender. Hourly limit: <limit>\<close> and throws that error. The
  queue treats it like any failed attempt: while an attempt is left the job is re-queued
  with the backoff delay \<open>2000 * 2 ^ made\<close> ms (\<open>made\<close> the attempts before this one); at the
  last attempt it is not re-queued and the unit stays \<open>failed\<close>.
\<close>

theorem denied_unit_fails_and_retries_within_budget:
  assumes up: "db_fault w = None"
    and present: "jobId job \<in> job_id ` set (scheduled_emails w)"
    and denied: "canSendEmail E (sender_or_default job) w = Inr False"
  shows "\<exists>w'. processor E job w = (Inl (rate_limit_error E), w') \<and>
      log w' = log w @ [Status_write (jobId job) processing, Status_write (jobId job) failed] \<and>
      status_of (jobId job) w' = Some failed \<and>
      error_detail_of (jobId job) w'
        = Some (''Rate limit exceeded for sender. Hourly limit: '' @ limit_text E) \<and>
      attempt_loop (Suc left) made E job w =
        attempt_loop left (Suc made) E job
          (w'\<lparr>log := log w' @ [Requeue (jobId job) (2000 * 2 ^ made)],
              now := now w' + 2000 * 2 ^ made\<rparr>) \<and>
      attempt_loop 0 made E job w = (Inl (rate_limit_error E), w')"
proof -
  let ?j = "jobId job"
  let ?fail = "map (set_status ?j failed (Some (message (rate_limit_error E))))"
  let ?w' = "w\<lparr>scheduled_emails := ?fail (scheduled_emails w),
               log := log w @ [Status_write ?j processing, Status_write ?j failed]\<rparr>"
  have run: "processor E job w = (Inl (rate_limit_error E), ?w')"
    using up denied by (rule denied_attempt)
  have msg: "message (rate_limit_error E) = ''Rate limit exceeded for sender. Hourly limit: '' @ limit_text E"
    by (simp add: rate_limit_error_def)
  have rows: "scheduled_emails ?w' = ?fail (scheduled_emails w)"
    by simp
  have st: "status_of ?j ?w' = Some failed"
    unfolding status_of_def rows using present by (rule status_of_after_write)
  have det: "error_detail_of ?j ?w' = Some (''Rate limit exceeded for sender. Hourly limit: '' @ limit_text E)"
    unfolding error_detail_of_def rows
    using error_detail_after_write [OF present, of failed "Some (message (rate_limit_error E))"]
    by (simp add: msg)
  have again: "attempt_loop (Suc left) made E job w =
        attempt_loop left (Suc made) E job
          (?w'\<lparr>log := log ?w' @ [Requeue ?j (2000 * 2 ^ made)], now := now ?w' + 2000 * 2 ^ made\<rparr>)"
    by (simp add: run requeue_def)
  have final: "attempt_loop 0 made E job w = (Inl (rate_limit_error E), ?w')"
    by (simp add: run)
  show ?thesis
    by (intro exI [of _ ?w'] conjI run st det again final) simp
qed

theorem denied_unit_fails_and_retries_within_budget_witness:
  "db_fault saturated_world = None \<and>
   jobId (demo_job ''email-1'') \<in> job_id ` set (scheduled_emails saturated_world) \<and>
   canSendEmail demo_env ''default'' saturated_world = Inr False \<and>
   fst (processor demo_env (demo_job ''email-1'') saturated_world)
     = Inl (Error ''Rate limit exceeded for sender. Hourly limit: 2'') \<and>
   log (snd (processor demo_env (demo_job ''email-1'') saturated_world))
     = [Status_write ''email-1'' processing, Status_write ''email-1'' failed] \<and>
   error_detail_of ''email-1'' (snd (processor demo_env (demo_job ''email-1'') saturated_world))
     = Some ''Rate limit exceeded for sender. Hourly limit: 2''"
proof -
  have h1: "db_fault saturated_world = None"
    "jobId (demo_job ''email-1'') \<in> job_id ` set (scheduled_emails saturated_world)"
    by simp_all
  have h2: "canSendEmail demo_env (sender_or_default (demo_job ''email-1'')) saturated_world = Inr False"
    by (simp add: canSendEmail_def redis_get_def Let_def demo_key_def)
  from denied_unit_fails_and_retries_within_budget [OF h1 h2, of 1 0]
  obtain w' where run: "processor demo_env (demo_job ''email-1'') saturated_world
        = (Inl (rate_limit_error demo_env), w')"
    and lg: "log w' = log saturated_world @
        [Status_write (jobId (demo_job ''email-1'')) processing,
         Status_write (jobId (demo_job ''email-1'')) failed]"
    and det: "error_detail_of (jobId (demo_job ''email-1'')) w'
        = Some (''Rate limit exceeded for sender. Hourly limit: '' @ limit_text demo_env)"
    by blast
  show ?thesis
    using h1 h2 run lg det by (simp add: rate_limit_error_def)
qed

subsection \<open>The hourly limit under concurrent deliveries\<close>

text \<open>
  C4 does not hold of the code. The check (\<open>canSendEmail\<close>) and the increment
  (\<open>incrementSentCount\<close>) are separate awaits with the transport call between them, and the
  worker runs five deliveries at once by default. With the limit 2 and one admission
  already recorded in the hour, two deliveries in flight both pass the check before either
  increments: three units are completed with their admissions recorded in one bucket, and
  the bucket's counter reads 3.
\<close>

theorem interleaved_deliveries_exceed_limit:
  "HOURLY_LIMIT demo_env = 2 \<and>
   counters race_start demo_key = Some 1 \<and>
   rate_key ''default'' race_time = demo_key \<and>
   fst race_end = Returned ''<a@x.io>'' \<and>
   fst (snd race_end) = Returned ''<a@x.io>'' \<and>
   redis_fault (snd (snd race_end)) = None \<and>
   map status (scheduled_emails (snd (snd race_end))) = [completed, completed, completed] \<and>
   map sent_job_id (sent_emails (snd (snd race_end))) = [''email-0'', ''email-1'', ''email-2''] \<and>
   count_list (log (snd (snd race_end))) (Counter_incr demo_key) = 3 \<and>
   counters (snd (snd race_end)) demo_key = Some 3"
  unfolding race_end_def race_schedule_def race_start_eq
  by (simp add: worker_defs demo_key_def demo_time_def race_time_def)

text \<open>
  Deliveries made one after the other in the last second of an hour overrun the limit
  as well: \<open>getSecondsUntilNextHour\<close> rounds the rest of the hour down to 0 seconds, and
  \<^verbatim>\<open>EXPIRE key 0\<close> deletes the counter that was just set to 1.
\<close>

lemma last_second_keys [simp]:
  "rate_key s 1700002799600 = rate_key s 1700002799500"
  "rate_key s 1700002799700 = rate_key s 1700002799500"
  by (rule hour_index_rate_key, simp add: hour_index_def msPerHour_def)+

lemma last_second_deliveries_reset_counter:
  "getSecondsUntilNextHour last_second = 0 \<and>
   hour_index (last_second + 200) = hour_index last_second \<and>
   map status (scheduled_emails last_second_run) = [completed, completed, completed] \<and>
   count_list (log last_second_run) (Counter_incr (rate_key ''default'' last_second)) = 3 \<and>
   counters last_second_run (rate_key ''default'' last_second) = None"
  by (simp add: last_second_run_def deliver_at_def last_second_def worker_defs)

subsection \<open>The hourly limit of a request\<close>

text \<open>
  C8 does not hold of the code. The schema accepts \<^verbatim>\<open>hourlyLimit\<close> and the handler takes it
  out of the validated data, but it is passed to neither the store nor the queue, and
  \<open>canSendEmail\<close> compares with \<open>HOURLY_LIMIT\<close> only. A request with \<^verbatim>\<open>hourlyLimit: 1\<close>
  is handled exactly like the same request without it, and both its units are admitted
  in one hour bucket under the configured limit 2.
\<close>

theorem override_of_hourly_limit_ignored:
  "hourlyLimit demo_request = Some 1 \<and>
   HOURLY_LIMIT demo_env = 2 \<and>
   fst (post_schedule_email demo_env demo_request empty_world) = Created ''batch-aaa'' 2 \<and>
   post_schedule_email demo_env (demo_request\<lparr>hourlyLimit := None\<rparr>) empty_world
     = post_schedule_email demo_env demo_request empty_world \<and>
   map senderEmail (map fst (queue scheduled_world)) = [None, None] \<and>
   map status (scheduled_emails override_run) = [completed, completed] \<and>
   count_list (log override_run) (Counter_incr (rate_key ''default'' 1700002800000)) = 2 \<and>
   counters override_run (rate_key ''default'' 1700002800000) = Some 2"
proof -
  have same: "post_schedule_email demo_env (demo_request\<lparr>hourlyLimit := None\<rparr>) empty_world
     = post_schedule_email demo_env demo_request empty_world"
    unfolding scheduled_world_eq
    by (simp add: post_schedule_email_def scheduleEmailSchema_def Let_def createScheduledEmail_def
      addEmailJob_def demo_time_def numeral_3_eq_3)
  have run: "map status (scheduled_emails override_run) = [completed, completed] \<and>
     count_list (log override_run) (Counter_incr (rate_key ''default'' 1700002800000)) = 2 \<and>
     counters override_run (rate_key ''default'' 1700002800000) = Some 2"
    unfolding override_run_def scheduled_world_def scheduled_world_eq snd_conv
    by (simp add: deliver_due_def deliver_at_def worker_defs new_job_def new_unit_def
        sender_or_default_def demo_time_def)
  have q: "map senderEmail (map fst (queue scheduled_world)) = [None, None]"
    unfolding scheduled_world_def scheduled_world_eq snd_conv
    by (simp add: new_job_def)
  show ?thesis
    using same run q by (simp add: scheduled_world_eq)
qed

end
